theory Spec2Isabelle
  imports Main
begin

section \<open>The open-threads inventory printer (\<^verbatim>\<open>.agent/scripts/pr.py\<close>)\<close>

text \<open>
  The script reads a JSON export of pull-request review threads and prints one table row
  for each thread that is neither outdated nor resolved. This theory embeds the script
  in HOL: decoded JSON values are a datatype, every Python exception the script can raise
  is a value of \<open>py_error\<close>, the two output streams and the file-system calls are fields of
  the record a run returns.
\<close>

subsection \<open>Python strings\<close>

text \<open>
  A Python \<^verbatim>\<open>str\<close> is a sequence of code points, and \<^verbatim>\<open>len\<close>, slicing and padding
  count code points. A HOL \<open>char\<close> is a byte, so a string is modelled as a list of code
  points (natural numbers); \<open>ascii\<close> embeds the literals of the script.
\<close>

type_synonym pystr = "nat list"

definition ascii :: "string \<Rightarrow> pystr" where
  "ascii s = map of_char s"

definition newline :: nat where
  "newline = 10"

definition space :: nat where
  "space = 32"

subsection \<open>Decoded JSON documents\<close>

text \<open>
  \<^verbatim>\<open>json.load\<close> returns \<^verbatim>\<open>None\<close>, a \<^verbatim>\<open>bool\<close>, an \<^verbatim>\<open>int\<close>, a \<^verbatim>\<open>float\<close>,
  a \<^verbatim>\<open>str\<close>, a \<^verbatim>\<open>list\<close> or a \<^verbatim>\<open>dict\<close> with string keys. A dict is the list
  of its items in insertion order. The script only tests a float for truth and formats
  it, so a float is represented by these two observations: whether it differs from
  \<^verbatim>\<open>0.0\<close>, and the text \<^verbatim>\<open>str\<close> gives for it.
\<close>

datatype pyfloat = PyFloat (float_nonzero: bool) (float_str: pystr)

datatype pyval =
    PNone
  | PBool bool
  | PInt int
  | PFloat pyfloat
  | PStr pystr
  | PList "pyval list"
  | PDict "(pystr \<times> pyval) list"

datatype py_error =
    KeyError
  | IndexError
  | TypeError
  | AttributeError
  | UnicodeEncodeError
  | JSONDecodeError
  | OSError

text \<open>The truth value of an object, as \<^verbatim>\<open>if\<close> and \<^verbatim>\<open>or\<close> take it.\<close>

fun truthy :: "pyval \<Rightarrow> bool" where
  "truthy PNone = False"
| "truthy (PBool b) = b"
| "truthy (PInt i) = (i \<noteq> 0)"
| "truthy (PFloat f) = float_nonzero f"
| "truthy (PStr s) = (s \<noteq> [])"
| "truthy (PList xs) = (xs \<noteq> [])"
| "truthy (PDict kvs) = (kvs \<noteq> [])"

text \<open>
  \<^verbatim>\<open>v.get(k, default)\<close>: only a dict has the method; on any other value the attribute
  lookup raises \<^verbatim>\<open>AttributeError\<close>.
\<close>

fun get :: "pyval \<Rightarrow> pystr \<Rightarrow> pyval \<Rightarrow> py_error + pyval" where
  "get (PDict kvs) k dflt = (case map_of kvs k of None \<Rightarrow> Inr dflt | Some v \<Rightarrow> Inr v)"
| "get _ k dflt = Inl AttributeError"

text \<open>
  \<^verbatim>\<open>v['k']\<close> with a string key: a dict raises \<^verbatim>\<open>KeyError\<close> when the key is missing;
  a list or a string takes integer indices only, and the other values are not
  subscriptable: both are a \<^verbatim>\<open>TypeError\<close>.
\<close>

fun subscript :: "pyval \<Rightarrow> pystr \<Rightarrow> py_error + pyval" where
  "subscript (PDict kvs) k = (case map_of kvs k of None \<Rightarrow> Inl KeyError | Some v \<Rightarrow> Inr v)"
| "subscript _ k = Inl TypeError"

text \<open>
  \<^verbatim>\<open>v[0]\<close>: the first element of a list, the first character of a string (as a string
  of length one), \<^verbatim>\<open>IndexError\<close> when either is empty. A decoded dict has string keys
  only, so the key \<^verbatim>\<open>0\<close> is never in it.
\<close>

fun subscript0 :: "pyval \<Rightarrow> py_error + pyval" where
  "subscript0 (PList []) = Inl IndexError"
| "subscript0 (PList (x # xs)) = Inr x"
| "subscript0 (PStr []) = Inl IndexError"
| "subscript0 (PStr (c # cs)) = Inr (PStr [c])"
| "subscript0 (PDict kvs) = Inl KeyError"
| "subscript0 _ = Inl TypeError"

text \<open>
  \<^verbatim>\<open>for t in v\<close>: the elements of a list, the keys of a dict, the characters of a
  string; the other values are not iterable.
\<close>

fun iterate :: "pyval \<Rightarrow> py_error + pyval list" where
  "iterate (PList xs) = Inr xs"
| "iterate (PDict kvs) = Inr (map (\<lambda>kv. PStr (fst kv)) kvs)"
| "iterate (PStr s) = Inr (map (\<lambda>c. PStr [c]) s)"
| "iterate _ = Inl TypeError"

subsection \<open>Formatting\<close>

text \<open>The decimal text of an integer, as \<^verbatim>\<open>str\<close> and \<^verbatim>\<open>format\<close> give it.\<close>

fun digits :: "nat \<Rightarrow> pystr" where
  "digits n = (if n < 10 then [48 + n] else digits (n div 10) @ [48 + n mod 10])"

declare digits.simps [simp del]

definition str_int :: "int \<Rightarrow> pystr" where
  "str_int i = (if i < 0 then 45 # digits (nat (- i)) else digits (nat i))"

text \<open>\<^verbatim>\<open>s.ljust(w)\<close>: pads with spaces on the right up to the width, never truncates.\<close>

definition ljust :: "nat \<Rightarrow> pystr \<Rightarrow> pystr" where
  "ljust w s = s @ replicate (w - length s) space"

text \<open>
  The replacement field \<^verbatim>\<open>{v:<w}\<close>. A string is padded; an int is written in decimal
  and padded; a bool is an int there (\<^verbatim>\<open>True\<close> is written \<^verbatim>\<open>1\<close>); a float is written
  as \<^verbatim>\<open>str\<close> writes it; \<^verbatim>\<open>None\<close>, a list and a dict reject a non-empty format
  specification with \<^verbatim>\<open>TypeError\<close>. The interpreter refuses to convert an int of more
  than 4300 digits, and \<^verbatim>\<open>json.load\<close> for the same reason never returns one.
\<close>

fun format_left :: "nat \<Rightarrow> pyval \<Rightarrow> py_error + pystr" where
  "format_left w (PStr s) = Inr (ljust w s)"
| "format_left w (PInt i) = Inr (ljust w (str_int i))"
| "format_left w (PBool b) = Inr (ljust w (str_int (if b then 1 else 0)))"
| "format_left w (PFloat f) = Inr (ljust w (float_str f))"
| "format_left w PNone = Inl TypeError"
| "format_left w (PList xs) = Inl TypeError"
| "format_left w (PDict kvs) = Inl TypeError"

subsection \<open>The function \<^verbatim>\<open>inventory\<close>\<close>

text \<open>Line 18: the chain of \<^verbatim>\<open>get\<close> calls, each with its default.\<close>

definition threads_of :: "pyval \<Rightarrow> py_error + pyval" where
  "threads_of data =
     (case get data (ascii ''data'') (PDict []) of Inl e \<Rightarrow> Inl e | Inr d \<Rightarrow>
     (case get d (ascii ''repository'') (PDict []) of Inl e \<Rightarrow> Inl e | Inr r \<Rightarrow>
     (case get r (ascii ''pullRequest'') (PDict []) of Inl e \<Rightarrow> Inl e | Inr p \<Rightarrow>
     (case get p (ascii ''reviewThreads'') (PDict []) of Inl e \<Rightarrow> Inl e | Inr rt \<Rightarrow>
      get rt (ascii ''nodes'') (PList [])))))"

text \<open>Lines 20 and 21: the two lines printed before the loop.\<close>

definition header :: pystr where
  "header =
     ljust 20 (ascii ''THREAD ID'') @ [space] @ ljust 30 (ascii ''PATH'') @ [space] @
     ljust 5 (ascii ''LINE'') @ [space] @ ljust 10 (ascii ''STATUS'') @ [space] @
     ascii ''COMMENT''"

definition separator :: pystr where
  "separator = concat (replicate 100 (ascii ''-''))"

text \<open>
  Line 24: \<^verbatim>\<open>t['isOutdated'] or t['isResolved']\<close>. The operator \<^verbatim>\<open>or\<close> evaluates
  its right operand only when the left one is false.
\<close>

definition skip_test :: "pyval \<Rightarrow> py_error + bool" where
  "skip_test t =
     (case subscript t (ascii ''isOutdated'') of Inl e \<Rightarrow> Inl e | Inr a \<Rightarrow>
     (if truthy a then Inr True
      else (case subscript t (ascii ''isResolved'') of Inl e \<Rightarrow> Inl e | Inr b \<Rightarrow>
            Inr (truthy b))))"

text \<open>
  Line 30: \<^verbatim>\<open>t['comments']['nodes'][0]['body'].replace('\n', ' ')[:50]\<close>. Only a
  string has \<^verbatim>\<open>replace\<close>.
\<close>

definition first_body :: "pyval \<Rightarrow> py_error + pyval" where
  "first_body t =
     (case subscript t (ascii ''comments'') of Inl e \<Rightarrow> Inl e | Inr c \<Rightarrow>
     (case subscript c (ascii ''nodes'') of Inl e \<Rightarrow> Inl e | Inr ns \<Rightarrow>
     (case subscript0 ns of Inl e \<Rightarrow> Inl e | Inr n \<Rightarrow>
      subscript n (ascii ''body''))))"

definition replace_newlines :: "pystr \<Rightarrow> pystr" where
  "replace_newlines s = map (\<lambda>c. if c = newline then space else c) s"

fun comment_text :: "pyval \<Rightarrow> py_error + pystr" where
  "comment_text (PStr s) = Inr (take 50 (replace_newlines s))"
| "comment_text _ = Inl AttributeError"

text \<open>Line 32: the f-string of a row, its fields formatted from left to right.\<close>

definition format_row :: "pyval \<Rightarrow> pyval \<Rightarrow> pyval \<Rightarrow> pystr \<Rightarrow> py_error + pystr" where
  "format_row tid path line body =
     (case format_left 20 tid of Inl e \<Rightarrow> Inl e | Inr c1 \<Rightarrow>
     (case format_left 30 path of Inl e \<Rightarrow> Inl e | Inr c2 \<Rightarrow>
     (case format_left 5 line of Inl e \<Rightarrow> Inl e | Inr c3 \<Rightarrow>
      Inr (c1 @ [space] @ c2 @ [space] @ c3 @ [space] @
           ljust 10 (ascii ''OPEN'') @ [space] @ body))))"

text \<open>Lines 27 to 32: the text printed for a thread that is not skipped.\<close>

definition row_of :: "pyval \<Rightarrow> py_error + pystr" where
  "row_of t =
     (case subscript t (ascii ''id'') of Inl e \<Rightarrow> Inl e | Inr tid \<Rightarrow>
     (case subscript t (ascii ''path'') of Inl e \<Rightarrow> Inl e | Inr path \<Rightarrow>
     (case subscript t (ascii ''line'') of Inl e \<Rightarrow> Inl e | Inr line \<Rightarrow>
     (case first_body t of Inl e \<Rightarrow> Inl e | Inr b \<Rightarrow>
     (case comment_text b of Inl e \<Rightarrow> Inl e | Inr body \<Rightarrow>
      format_row tid path line body)))))"

text \<open>
  \<^verbatim>\<open>print(s)\<close> on standard output. The stream is a text stream that encodes to UTF-8
  with the strict error handler, the interpreter's default: a surrogate code point
  (\<^verbatim>\<open>U+D800\<close> to \<^verbatim>\<open>U+DFFF\<close>, which \<^verbatim>\<open>json.load\<close> returns for an escape such as
  \<^verbatim>\<open>"\ud800"\<close>) cannot be encoded, and the call raises \<^verbatim>\<open>UnicodeEncodeError\<close> before
  anything of the text is written. \<open>out\<close> is what has been printed so far.
\<close>

definition encodable :: "pystr \<Rightarrow> bool" where
  "encodable s = list_all (\<lambda>c. c < 0xD800 \<or> 0xDFFF < c) s"

definition print_line :: "pystr \<Rightarrow> pystr list \<Rightarrow> py_error + pystr list" where
  "print_line s out = (if encodable s then Inr (out @ [s]) else Inl UnicodeEncodeError)"

text \<open>
  Lines 23 to 32: the loop. It takes the lines printed so far and returns them extended,
  with the exception that ended the loop, if any.
\<close>

fun for_threads :: "pyval list \<Rightarrow> pystr list \<Rightarrow> pystr list \<times> py_error option" where
  "for_threads [] out = (out, None)"
| "for_threads (t # ts) out =
     (case skip_test t of
        Inl e \<Rightarrow> (out, Some e)
      | Inr True \<Rightarrow> for_threads ts out
      | Inr False \<Rightarrow>
          (case row_of t of
             Inl e \<Rightarrow> (out, Some e)
           | Inr r \<Rightarrow>
               (case print_line r out of
                  Inl e \<Rightarrow> (out, Some e)
                | Inr out' \<Rightarrow> for_threads ts out')))"

subsection \<open>A run of the script\<close>

text \<open>
  The file system answers two calls. \<open>fs p = None\<close>: \<^verbatim>\<open>os.path.exists(p)\<close> is false.
  \<open>fs p = Some (Inl e)\<close>: the path exists and \<^verbatim>\<open>open\<close> or \<^verbatim>\<open>json.load\<close> raises \<open>e\<close>.
  \<open>fs p = Some (Inr v)\<close>: \<^verbatim>\<open>json.load\<close> returns \<open>v\<close>.

  A run ends with \<^verbatim>\<open>sys.exit\<close>, by reaching the end of the script (status 0), or with
  an exception nobody catches: the interpreter then writes a traceback to the diagnostic
  stream and the status is 1. The fields \<open>stdout\<close> and \<open>stderr\<close> hold the texts the
  script itself printed, one entry for each call of \<^verbatim>\<open>print\<close>. The diagnostic stream
  replaces what it cannot encode by an escape and so accepts every string.
\<close>

type_synonym filesystem = "pystr \<Rightarrow> (py_error + pyval) option"

datatype fs_call = Exists pystr | Open pystr

datatype outcome = Exit nat | Uncaught py_error

fun exit_status :: "outcome \<Rightarrow> nat" where
  "exit_status (Exit n) = n"
| "exit_status (Uncaught e) = 1"

record run =
  stdout :: "pystr list"
  stderr :: "pystr list"
  fs_calls :: "fs_call list"
  outcome :: outcome

text \<open>Lines 18 to 32: what \<^verbatim>\<open>inventory\<close> does with the decoded document.\<close>

definition print_table :: "pyval \<Rightarrow> pystr list \<times> outcome" where
  "print_table data =
     (case threads_of data of
        Inl e \<Rightarrow> ([], Uncaught e)
      | Inr threads \<Rightarrow>
          (case print_line header [] of
             Inl e \<Rightarrow> ([], Uncaught e)
           | Inr out1 \<Rightarrow>
               (case print_line separator out1 of
                  Inl e \<Rightarrow> (out1, Uncaught e)
                | Inr out2 \<Rightarrow>
                    (case iterate threads of
                       Inl e \<Rightarrow> (out2, Uncaught e)
                     | Inr ts \<Rightarrow>
                         (case for_threads ts out2 of
                            (out, None) \<Rightarrow> (out, Exit 0)
                          | (out, Some e) \<Rightarrow> (out, Uncaught e))))))"

definition inventory :: "filesystem \<Rightarrow> pystr \<Rightarrow> run" where
  "inventory fs file_path =
     (case fs file_path of
        None \<Rightarrow>
          \<lparr>stdout = [],
           stderr = [ascii ''Error: '' @ file_path @ ascii '' not found''],
           fs_calls = [Exists file_path],
           outcome = Exit 1\<rparr>
      | Some (Inl e) \<Rightarrow>
          \<lparr>stdout = [], stderr = [],
           fs_calls = [Exists file_path, Open file_path],
           outcome = Uncaught e\<rparr>
      | Some (Inr data) \<Rightarrow>
          \<lparr>stdout = fst (print_table data), stderr = [],
           fs_calls = [Exists file_path, Open file_path],
           outcome = snd (print_table data)\<rparr>)"

text \<open>Lines 34 to 38: the entry point; \<open>argv\<close> is \<^verbatim>\<open>sys.argv\<close>, the script's name first.\<close>

definition usage :: pystr where
  "usage = ascii ''Usage: uv run pr.py <threads.json>''"

definition main :: "pystr list \<Rightarrow> filesystem \<Rightarrow> run" where
  "main argv fs =
     (if length argv < 2
      then \<lparr>stdout = [], stderr = [usage], fs_calls = [], outcome = Exit 1\<rparr>
      else inventory fs (argv ! 1))"

subsection \<open>The scenario of the specification\<close>

text \<open>
  The document of section 8, item 6: thread \<^verbatim>\<open>T1\<close> is open, its comment has a newline
  between \<^verbatim>\<open>line one\<close> and \<^verbatim>\<open>line two\<close>; thread \<^verbatim>\<open>T2\<close> is outdated.
\<close>

definition thread_T1 :: pyval where
  "thread_T1 =
     PDict [(ascii ''id'', PStr (ascii ''T1'')),
            (ascii ''path'', PStr (ascii ''a.py'')),
            (ascii ''line'', PInt 10),
            (ascii ''isOutdated'', PBool False),
            (ascii ''isResolved'', PBool False),
            (ascii ''comments'', PDict [(ascii ''nodes'',
               PList [PDict [(ascii ''body'',
                 PStr (ascii ''line one'' @ [newline] @ ascii ''line two''))]])])]"

definition thread_T2 :: pyval where
  "thread_T2 =
     PDict [(ascii ''id'', PStr (ascii ''T2'')),
            (ascii ''path'', PStr (ascii ''b.py'')),
            (ascii ''line'', PInt 5),
            (ascii ''isOutdated'', PBool True),
            (ascii ''isResolved'', PBool False),
            (ascii ''comments'', PDict [(ascii ''nodes'',
               PList [PDict [(ascii ''body'', PStr (ascii ''ignored''))]])])]"

text \<open>The envelope of section 6 around a value for \<^verbatim>\<open>nodes\<close>.\<close>

definition envelope :: "pyval \<Rightarrow> pyval" where
  "envelope ns =
     PDict [(ascii ''data'',
       PDict [(ascii ''repository'',
         PDict [(ascii ''pullRequest'',
           PDict [(ascii ''reviewThreads'',
             PDict [(ascii ''nodes'', ns)])])])])]"

definition scenario :: pyval where
  "scenario = envelope (PList [thread_T1, thread_T2])"

subsection \<open>Further documents\<close>

text \<open>A file system that holds one JSON file.\<close>

definition single_file :: "pystr \<Rightarrow> pyval \<Rightarrow> filesystem" where
  "single_file p doc = Map.empty(p \<mapsto> Inr doc)"

text \<open>The scenario without its second thread.\<close>

definition scenario_T1 :: pyval where
  "scenario_T1 = envelope (PList [thread_T1])"

text \<open>A document whose \<^verbatim>\<open>repository\<close> object has no key \<^verbatim>\<open>pullRequest\<close>.\<close>

definition no_pull_request :: pyval where
  "no_pull_request = PDict [(ascii ''data'', PDict [(ascii ''repository'', PDict [])])]"

text \<open>A document whose key \<^verbatim>\<open>data\<close> is bound to \<^verbatim>\<open>null\<close>.\<close>

definition data_null :: pyval where
  "data_null = PDict [(ascii ''data'', PNone)]"

text \<open>An open thread whose sequence of comments is empty.\<close>

definition thread_no_comment :: pyval where
  "thread_no_comment =
     PDict [(ascii ''id'', PStr (ascii ''T3'')),
            (ascii ''path'', PStr (ascii ''c.py'')),
            (ascii ''line'', PInt 7),
            (ascii ''isOutdated'', PBool False),
            (ascii ''isResolved'', PBool False),
            (ascii ''comments'', PDict [(ascii ''nodes'', PList [])])]"

definition scenario_no_comment :: pyval where
  "scenario_no_comment = envelope (PList [thread_T1, thread_no_comment, thread_T2])"




text \<open>An open thread whose \<^verbatim>\<open>id\<close> is the lone surrogate \<^verbatim>\<open>U+D800\<close>.\<close>

definition thread_surrogate :: pyval where
  "thread_surrogate =
     PDict [(ascii ''id'', PStr [0xD800]),
            (ascii ''path'', PStr (ascii ''e.py'')),
            (ascii ''line'', PInt 1),
            (ascii ''isOutdated'', PBool False),
            (ascii ''isResolved'', PBool False),
            (ascii ''comments'', PDict [(ascii ''nodes'',
               PList [PDict [(ascii ''body'', PStr (ascii ''fine''))]])])]"

text \<open>Threads with one flag only.\<close>

definition resolved_only :: pyval where
  "resolved_only = PDict [(ascii ''isResolved'', PBool True)]"

definition outdated_only :: pyval where
  "outdated_only = PDict [(ascii ''isOutdated'', PBool True)]"

section \<open>Notions of the specification\<close>

text \<open>A flag of a thread record is true: the key is present and Python takes its value as true.\<close>

definition flag_true :: "pystr \<Rightarrow> (pystr \<times> pyval) list \<Rightarrow> bool" where
  "flag_true k kvs = (case map_of kvs k of None \<Rightarrow> False | Some v \<Rightarrow> truthy v)"

text \<open>
  A flag that line 24 reads is missing: \<^verbatim>\<open>isOutdated\<close> is absent, or it is present
  and false and \<^verbatim>\<open>isResolved\<close> is absent.
\<close>

definition flag_missing :: "(pystr \<times> pyval) list \<Rightarrow> bool" where
  "flag_missing kvs =
     (case map_of kvs (ascii ''isOutdated'') of
        None \<Rightarrow> True
      | Some a \<Rightarrow> \<not> truthy a \<and> map_of kvs (ascii ''isResolved'') = None)"

text \<open>The keys of the envelope, outermost first.\<close>

definition intermediate_keys :: "pystr list" where
  "intermediate_keys =
     [ascii ''data'', ascii ''repository'', ascii ''pullRequest'', ascii ''reviewThreads'']"

definition nodes_path :: "pystr list" where
  "nodes_path = intermediate_keys @ [ascii ''nodes'']"

fun is_dict :: "pyval \<Rightarrow> bool" where
  "is_dict (PDict kvs) = True"
| "is_dict _ = False"

text \<open>
  Following the keys through nested mappings, a key is absent from the mapping in which
  it is looked up.
\<close>

fun absent_along :: "pystr list \<Rightarrow> pyval \<Rightarrow> bool" where
  "absent_along [] v = False"
| "absent_along (k # ks) (PDict kvs) =
     (case map_of kvs k of None \<Rightarrow> True | Some v \<Rightarrow> absent_along ks v)"
| "absent_along (k # ks) _ = False"

text \<open>
  Following the keys through nested mappings, a key is present and bound to a value that
  is not a mapping.
\<close>

fun non_mapping_along :: "pystr list \<Rightarrow> pyval \<Rightarrow> bool" where
  "non_mapping_along [] v = False"
| "non_mapping_along (k # ks) (PDict kvs) =
     (case map_of kvs k of
        None \<Rightarrow> False
      | Some v \<Rightarrow> \<not> is_dict v \<or> non_mapping_along ks v)"
| "non_mapping_along (k # ks) _ = False"

text \<open>The chain of line 18 for any list of keys; \<open>l\<close> is the last key, with the list default.\<close>

fun get_chain :: "pystr list \<Rightarrow> pystr \<Rightarrow> pyval \<Rightarrow> py_error + pyval" where
  "get_chain [] l v = get v l (PList [])"
| "get_chain (k # ks) l v =
     (case get v k (PDict []) of Inl e \<Rightarrow> Inl e | Inr v' \<Rightarrow> get_chain ks l v')"

text \<open>
  The body of the first comment is missing: \<^verbatim>\<open>comments\<close> is absent, or its \<^verbatim>\<open>nodes\<close>
  is absent or the empty sequence, or the first comment has no \<^verbatim>\<open>body\<close>.
\<close>

definition first_comment_body_missing :: "(pystr \<times> pyval) list \<Rightarrow> bool" where
  "first_comment_body_missing kvs =
     (case map_of kvs (ascii ''comments'') of
        None \<Rightarrow> True
      | Some (PDict c) \<Rightarrow>
          (case map_of c (ascii ''nodes'') of
             None \<Rightarrow> True
           | Some (PList []) \<Rightarrow> True
           | Some (PList (PDict n # ns)) \<Rightarrow> map_of n (ascii ''body'') = None
           | Some _ \<Rightarrow> False)
      | Some _ \<Rightarrow> False)"

definition missing_required :: "(pystr \<times> pyval) list \<Rightarrow> bool" where
  "missing_required kvs =
     (map_of kvs (ascii ''id'') = None \<or> map_of kvs (ascii ''path'') = None \<or>
      map_of kvs (ascii ''line'') = None \<or> first_comment_body_missing kvs)"



section \<open>Properties\<close>

subsection \<open>The table header\<close>

lemma header_text:
  "header =
     ascii ''THREAD ID            PATH                           LINE  STATUS     COMMENT''"
  by code_simp

lemma separator_text: "separator = replicate 100 (of_char CHR ''-'')"
  by code_simp

subsection \<open>Printing\<close>

lemma of_char_small: "of_char c < (256::nat)"
  by (cases c) (simp add: of_char_def)

lemma encodable_ascii: "encodable (ascii s)"
proof -
  have "of_char c < (0xD800::nat)" for c
    using of_char_small [of c] by linarith
  then show ?thesis
    by (simp add: encodable_def ascii_def list_all_iff)
qed

lemma encodable_append: "encodable (a @ b) = (encodable a \<and> encodable b)"
  by (simp add: encodable_def)

lemma encodable_space_Cons: "encodable (space # s) = encodable s"
  by (simp add: encodable_def space_def)

lemma encodable_ljust: "encodable (ljust w s) = encodable s"
  by (auto simp add: ljust_def encodable_def space_def list_all_iff)

lemma encodable_header: "encodable header"
  by (simp add: header_def encodable_append encodable_ljust encodable_ascii
      encodable_space_Cons)

lemma encodable_separator: "encodable separator"
  by (simp add: separator_def encodable_def list_all_iff ascii_def)

lemma print_line_ascii: "print_line (ascii s) out = Inr (out @ [ascii s])"
  by (simp add: print_line_def encodable_ascii)

lemma print_header: "print_line header [] = Inr [header]"
  by (simp add: print_line_def encodable_header)

lemma print_separator: "print_line separator [header] = Inr [header, separator]"
  by (simp add: print_line_def encodable_separator)

lemma print_line_surrogate: "print_line (0xD800 # s) out = Inl UnicodeEncodeError"
  by (simp add: print_line_def encodable_def)

lemma print_table_unfold:
  "print_table data =
     (case threads_of data of
        Inl e \<Rightarrow> ([], Uncaught e)
      | Inr threads \<Rightarrow>
          (case iterate threads of
             Inl e \<Rightarrow> ([header, separator], Uncaught e)
           | Inr ts \<Rightarrow>
               (case for_threads ts [header, separator] of
                  (out, None) \<Rightarrow> (out, Exit 0)
                | (out, Some e) \<Rightarrow> (out, Uncaught e))))"
  by (simp add: print_table_def print_header print_separator split: sum.split)

subsection \<open>Running the script on a document\<close>

lemma single_file_same: "single_file p doc p = Some (Inr doc)"
  by (simp add: single_file_def)

lemma main_document:
  assumes "fs path = Some (Inr doc)"
  shows "main (prog # path # rest) fs =
           \<lparr>stdout = fst (print_table doc), stderr = [],
            fs_calls = [Exists path, Open path], outcome = snd (print_table doc)\<rparr>"
  using assms by (simp add: main_def inventory_def)

lemma threads_of_envelope: "threads_of (envelope ns) = Inr ns"
  by (simp add: threads_of_def envelope_def ascii_def)


lemma print_table_list:
  assumes "threads_of doc = Inr (PList ts)"
  shows "print_table doc =
           (case for_threads ts [header, separator] of
              (out, None) \<Rightarrow> (out, Exit 0)
            | (out, Some e) \<Rightarrow> (out, Uncaught e))"
  using assms by (simp add: print_table_unfold)

subsection \<open>The loop\<close>

lemma for_threads_append:
  "for_threads (pre @ post) out =
     (case for_threads pre out of
        (out', None) \<Rightarrow> for_threads post out'
      | (out', Some e) \<Rightarrow> (out', Some e))"
proof (induction pre arbitrary: out)
  case Nil
  show ?case by simp
next
  case (Cons t pre)
  show ?case
    by (simp add: Cons.IH print_line_def split: sum.split bool.split)
qed

lemma for_threads_skip:
  assumes "skip_test t = Inr True"
  shows "for_threads (pre @ t # post) out = for_threads (pre @ post) out"
  using assms by (simp add: for_threads_append split: prod.split option.split)

lemma for_threads_raise_skip:
  assumes "for_threads pre out = (out', None)" and "skip_test t = Inl e"
  shows "for_threads (pre @ t # post) out = (out', Some e)"
  using assms by (simp add: for_threads_append)

lemma for_threads_raise_row:
  assumes "for_threads pre out = (out', None)"
    and "skip_test t = Inr False" and "row_of t = Inl e"
  shows "for_threads (pre @ t # post) out = (out', Some e)"
  using assms by (simp add: for_threads_append)

lemma skip_test_true:
  assumes "map_of kvs (ascii ''isOutdated'') \<noteq> None"
    and "flag_true (ascii ''isOutdated'') kvs \<or> flag_true (ascii ''isResolved'') kvs"
  shows "skip_test (PDict kvs) = Inr True"
  using assms by (auto simp add: skip_test_def flag_true_def split: option.splits)

lemma skip_test_false:
  "(skip_test (PDict kvs) = Inr False) =
     (\<exists>a b. map_of kvs (ascii ''isOutdated'') = Some a \<and> \<not> truthy a \<and>
            map_of kvs (ascii ''isResolved'') = Some b \<and> \<not> truthy b)"
  by (auto simp add: skip_test_def split: option.splits)

lemma skip_test_flag_missing:
  assumes "flag_missing kvs"
  shows "skip_test (PDict kvs) = Inl KeyError"
  using assms by (auto simp add: flag_missing_def skip_test_def split: option.splits)

subsection \<open>Usage and missing file\<close>

text \<open>
  Claim C8. Invoked without a file-path argument (\<^verbatim>\<open>sys.argv\<close> has fewer than two
  entries), the script prints the usage message to the diagnostic stream and exits with
  status 1; it prints nothing to standard output and makes no file-system call, whatever
  the file system holds.
\<close>

theorem main_usage:
  assumes "length argv < 2"
  shows "main argv fs =
           \<lparr>stdout = [], stderr = [ascii ''Usage: uv run pr.py <threads.json>''],
            fs_calls = [], outcome = Exit 1\<rparr> \<and>
         exit_status (outcome (main argv fs)) = 1"
  using assms by (simp add: main_def usage_def)

theorem main_usage_witness:
  "length [ascii ''pr.py''] < 2 \<and>
   main [ascii ''pr.py''] (single_file (ascii ''threads.json'') scenario) =
     \<lparr>stdout = [], stderr = [ascii ''Usage: uv run pr.py <threads.json>''],
      fs_calls = [], outcome = Exit 1\<rparr>"
  using main_usage [of "[ascii ''pr.py'']" "single_file (ascii ''threads.json'') scenario"]
  by simp

text \<open>
  Claim C5. When the path argument does not reference an existing file, the script
  prints \<^verbatim>\<open>Error: <path> not found\<close> to the diagnostic stream, exits with status 1 and
  prints nothing to standard output; the only file-system call is the existence test.
\<close>

theorem main_file_not_found:
  assumes "fs path = None"
  shows "main (prog # path # rest) fs =
           \<lparr>stdout = [],
            stderr = [ascii ''Error: '' @ path @ ascii '' not found''],
            fs_calls = [Exists path],
            outcome = Exit 1\<rparr> \<and>
         exit_status (outcome (main (prog # path # rest) fs)) = 1"
  using assms by (simp add: main_def inventory_def)

theorem main_file_not_found_witness:
  "single_file (ascii ''threads.json'') scenario (ascii ''gone.json'') = None \<and>
   main [ascii ''pr.py'', ascii ''gone.json''] (single_file (ascii ''threads.json'') scenario) =
     \<lparr>stdout = [],
      stderr = [ascii ''Error: gone.json not found''],
      fs_calls = [Exists (ascii ''gone.json'')],
      outcome = Exit 1\<rparr>"
proof -
  have h: "single_file (ascii ''threads.json'') scenario (ascii ''gone.json'') = None"
    by (simp add: single_file_def ascii_def)
  show ?thesis
    using h main_file_not_found [where fs = "single_file (ascii ''threads.json'') scenario"
      and path = "ascii ''gone.json''" and prog = "ascii ''pr.py''" and rest = "[]"]
    by (simp add: ascii_def)
qed

subsection \<open>The scenario\<close>

lemma skip_test_T1: "skip_test thread_T1 = Inr False"
  by (simp add: skip_test_def thread_T1_def ascii_def)

lemma skip_test_T2: "skip_test thread_T2 = Inr True"
  by (simp add: skip_test_def thread_T2_def ascii_def)

lemma row_of_T1:
  "row_of thread_T1 =
     Inr (ascii ''T1                   a.py                           10    OPEN       line one line two'')"
  by code_simp

lemma for_threads_T1:
  "for_threads [thread_T1] [header, separator] =
     ([header, separator,
       ascii ''T1                   a.py                           10    OPEN       line one line two''],
      None)"
  by (simp add: skip_test_T1 row_of_T1 print_line_ascii)

lemma print_table_scenario:
  "print_table scenario =
     ([ascii ''THREAD ID            PATH                           LINE  STATUS     COMMENT'',
       replicate 100 (of_char CHR ''-''),
       ascii ''T1                   a.py                           10    OPEN       line one line two''],
      Exit 0)"
  by (simp add: print_table_unfold scenario_def threads_of_envelope skip_test_T1 skip_test_T2
      row_of_T1 print_line_ascii header_text separator_text)

text \<open>
  Claim C2. On the two-thread document of the specification the script prints the header
  line, the separator line and one row for \<^verbatim>\<open>T1\<close>, with status \<^verbatim>\<open>OPEN\<close> and the
  comment \<^verbatim>\<open>line one line two\<close>; it prints no row for \<^verbatim>\<open>T2\<close> and exits with
  status 0.
\<close>

theorem scenario_output:
  "main [prog, path] (single_file path scenario) =
     \<lparr>stdout =
        [ascii ''THREAD ID            PATH                           LINE  STATUS     COMMENT'',
         replicate 100 (of_char CHR ''-''),
         ascii ''T1                   a.py                           10    OPEN       line one line two''],
      stderr = [],
      fs_calls = [Exists path, Open path],
      outcome = Exit 0\<rparr>"
  using single_file_same [of path scenario]
  by (simp add: main_document [where doc = scenario] print_table_scenario)

subsection \<open>Skipped threads\<close>

text \<open>
  Claim C1. A thread record whose \<^verbatim>\<open>isResolved\<close> or \<^verbatim>\<open>isOutdated\<close> field is true
  gets no row, whatever its other fields are, and the loop goes on with the next thread:
  the loop started at that thread behaves as the loop started at the next one, and the
  whole run is the run on the document without that thread. A thread record has both
  flags; the proof needs \<^verbatim>\<open>isOutdated\<close> to be present, since line 24 reads it first,
  and nothing of \<^verbatim>\<open>id\<close>, \<^verbatim>\<open>path\<close>, \<^verbatim>\<open>line\<close> and \<^verbatim>\<open>comments\<close>.
\<close>

theorem resolved_or_outdated_skipped:
  assumes present: "map_of kvs (ascii ''isOutdated'') \<noteq> None"
    and flag: "flag_true (ascii ''isOutdated'') kvs \<or> flag_true (ascii ''isResolved'') kvs"
    and doc_file: "fs path = Some (Inr doc)"
    and threads: "threads_of doc = Inr (PList (pre @ PDict kvs # post))"
    and doc_file': "fs' path = Some (Inr doc')"
    and threads': "threads_of doc' = Inr (PList (pre @ post))"
  shows "for_threads (PDict kvs # post) out = for_threads post out \<and>
         stdout (main (prog # path # rest) fs) = stdout (main (prog # path # rest) fs') \<and>
         outcome (main (prog # path # rest) fs) = outcome (main (prog # path # rest) fs')"
proof -
  have s: "skip_test (PDict kvs) = Inr True"
    using present flag by (rule skip_test_true)
  have "for_threads (pre @ PDict kvs # post) [header, separator] =
        for_threads (pre @ post) [header, separator]"
    using s by (rule for_threads_skip)
  then have "print_table doc = print_table doc'"
    by (simp add: print_table_list [OF threads] print_table_list [OF threads'])
  moreover have "for_threads (PDict kvs # post) out = for_threads post out"
    using s by simp
  ultimately show ?thesis
    using doc_file doc_file'
    by (simp add: main_document [where doc = doc] main_document [where doc = doc'])
qed

lemma thread_T2_outdated:
  "thread_T2 =
     PDict [(ascii ''id'', PStr (ascii ''T2'')),
            (ascii ''path'', PStr (ascii ''b.py'')),
            (ascii ''line'', PInt 5),
            (ascii ''isOutdated'', PBool True),
            (ascii ''isResolved'', PBool False),
            (ascii ''comments'', PDict [(ascii ''nodes'',
               PList [PDict [(ascii ''body'', PStr (ascii ''ignored''))]])])] \<and>
   map_of [(ascii ''id'', PStr (ascii ''T2'')),
            (ascii ''path'', PStr (ascii ''b.py'')),
            (ascii ''line'', PInt 5),
            (ascii ''isOutdated'', PBool True),
            (ascii ''isResolved'', PBool False),
            (ascii ''comments'', PDict [(ascii ''nodes'',
               PList [PDict [(ascii ''body'', PStr (ascii ''ignored''))]])])]
      (ascii ''isOutdated'') = Some (PBool True)"
  by (simp add: thread_T2_def ascii_def)

theorem resolved_or_outdated_skipped_witness:
  "stdout (main [ascii ''pr.py'', ascii ''threads.json'']
             (single_file (ascii ''threads.json'') scenario)) =
   stdout (main [ascii ''pr.py'', ascii ''threads.json'']
             (single_file (ascii ''threads.json'') scenario_T1)) \<and>
   outcome (main [ascii ''pr.py'', ascii ''threads.json'']
             (single_file (ascii ''threads.json'') scenario)) =
   outcome (main [ascii ''pr.py'', ascii ''threads.json'']
             (single_file (ascii ''threads.json'') scenario_T1))"
proof -
  let ?kvs = "[(ascii ''id'', PStr (ascii ''T2'')),
            (ascii ''path'', PStr (ascii ''b.py'')),
            (ascii ''line'', PInt 5),
            (ascii ''isOutdated'', PBool True),
            (ascii ''isResolved'', PBool False),
            (ascii ''comments'', PDict [(ascii ''nodes'',
               PList [PDict [(ascii ''body'', PStr (ascii ''ignored''))]])])]"
  have t2: "thread_T2 = PDict ?kvs" and o: "map_of ?kvs (ascii ''isOutdated'') = Some (PBool True)"
    using thread_T2_outdated by simp_all
  have h1: "map_of ?kvs (ascii ''isOutdated'') \<noteq> None"
    using o by simp
  have h2: "flag_true (ascii ''isOutdated'') ?kvs \<or> flag_true (ascii ''isResolved'') ?kvs"
    using o by (simp add: flag_true_def)
  have h3: "threads_of scenario = Inr (PList ([thread_T1] @ PDict ?kvs # []))"
    by (simp add: scenario_def threads_of_envelope t2 [symmetric])
  have h4: "threads_of scenario_T1 = Inr (PList ([thread_T1] @ []))"
    by (simp add: scenario_T1_def threads_of_envelope)
  have h5: "single_file (ascii ''threads.json'') scenario (ascii ''threads.json'') =
      Some (Inr scenario)"
    by (rule single_file_same)
  have h6: "single_file (ascii ''threads.json'') scenario_T1 (ascii ''threads.json'') =
      Some (Inr scenario_T1)"
    by (rule single_file_same)
  show ?thesis
    using resolved_or_outdated_skipped [where kvs = ?kvs
      and fs = "single_file (ascii ''threads.json'') scenario"
      and fs' = "single_file (ascii ''threads.json'') scenario_T1"
      and path = "ascii ''threads.json''" and doc = scenario and doc' = scenario_T1
      and pre = "[thread_T1]" and post = "[]" and out = "[]"
      and prog = "ascii ''pr.py''" and rest = "[]"] h1 h2 h3 h4 h5 h6
    by blast
qed

subsection \<open>Navigation to the threads\<close>

lemma threads_of_chain:
  "threads_of doc = get_chain intermediate_keys (ascii ''nodes'') doc"
  by (simp add: threads_of_def intermediate_keys_def split: sum.split)

lemma get_chain_empty: "get_chain ks l (PDict []) = Inr (PList [])"
  by (induction ks) simp_all

lemma get_chain_absent:
  "absent_along (ks @ [l]) v \<Longrightarrow> get_chain ks l v = Inr (PList [])"
proof (induction ks arbitrary: v)
  case Nil
  then show ?case by (cases v) (simp_all split: option.splits)
next
  case (Cons k ks)
  from Cons.prems obtain kvs where v: "v = PDict kvs"
    by (cases v) simp_all
  show ?case
  proof (cases "map_of kvs k")
    case None
    then show ?thesis by (simp add: v get_chain_empty)
  next
    case (Some v')
    with Cons.prems v have "absent_along (ks @ [l]) v'" by simp
    then have "get_chain ks l v' = Inr (PList [])" by (rule Cons.IH)
    with Some show ?thesis by (simp add: v)
  qed
qed

lemma get_not_dict: "\<not> is_dict v \<Longrightarrow> get v k d = Inl AttributeError"
  by (cases v) simp_all

lemma get_chain_not_dict: "\<not> is_dict v \<Longrightarrow> get_chain ks l v = Inl AttributeError"
  by (cases ks) (simp_all add: get_not_dict)

lemma get_chain_non_mapping:
  "non_mapping_along ks v \<Longrightarrow> get_chain ks l v = Inl AttributeError"
proof (induction ks arbitrary: v)
  case Nil
  then show ?case by simp
next
  case (Cons k ks)
  from Cons.prems obtain kvs where v: "v = PDict kvs"
    by (cases v) simp_all
  from Cons.prems v obtain v' where v': "map_of kvs k = Some v'"
    and d: "\<not> is_dict v' \<or> non_mapping_along ks v'"
    by (cases "map_of kvs k") simp_all
  from d have "get_chain ks l v' = Inl AttributeError"
    using Cons.IH get_chain_not_dict by blast
  with v' show ?case by (simp add: v)
qed

lemma non_mapping_document:
  assumes "\<not> is_dict doc"
  shows "print_table doc = ([], Uncaught AttributeError)"
  using assms by (simp add: print_table_unfold threads_of_chain get_chain_not_dict)

text \<open>
  Claim C3. When one of the keys \<^verbatim>\<open>data\<close>, \<^verbatim>\<open>repository\<close>, \<^verbatim>\<open>pullRequest\<close>,
  \<^verbatim>\<open>reviewThreads\<close>, \<^verbatim>\<open>nodes\<close> is absent from the mapping in which the navigation
  looks it up, the navigation yields the empty sequence of threads: the script prints
  the header line and the separator of 100 dashes, no row, and exits with status 0.
\<close>

theorem absent_key_prints_empty_table:
  assumes doc_file: "fs path = Some (Inr doc)"
    and absent: "absent_along nodes_path doc"
  shows "threads_of doc = Inr (PList []) \<and>
         main (prog # path # rest) fs =
           \<lparr>stdout =
              [ascii ''THREAD ID            PATH                           LINE  STATUS     COMMENT'',
               replicate 100 (of_char CHR ''-'')],
            stderr = [],
            fs_calls = [Exists path, Open path],
            outcome = Exit 0\<rparr> \<and>
         exit_status (outcome (main (prog # path # rest) fs)) = 0"
proof -
  have t: "threads_of doc = Inr (PList [])"
    using absent unfolding nodes_path_def threads_of_chain by (rule get_chain_absent)
  then have "print_table doc = ([header, separator], Exit 0)"
    by (simp add: print_table_unfold)
  then show ?thesis
    using doc_file t
    by (simp add: main_document [where doc = doc] header_text separator_text)
qed

lemma absent_no_pull_request: "absent_along nodes_path no_pull_request"
  by (simp add: nodes_path_def intermediate_keys_def no_pull_request_def ascii_def)

theorem absent_key_prints_empty_table_witness:
  "absent_along nodes_path no_pull_request \<and>
   main [ascii ''pr.py'', ascii ''threads.json'']
     (single_file (ascii ''threads.json'') no_pull_request) =
     \<lparr>stdout =
        [ascii ''THREAD ID            PATH                           LINE  STATUS     COMMENT'',
         replicate 100 (of_char CHR ''-'')],
      stderr = [],
      fs_calls = [Exists (ascii ''threads.json''), Open (ascii ''threads.json'')],
      outcome = Exit 0\<rparr>"
  using absent_key_prints_empty_table [where doc = no_pull_request
    and fs = "single_file (ascii ''threads.json'') no_pull_request"
    and path = "ascii ''threads.json''" and prog = "ascii ''pr.py''" and rest = "[]"]
    absent_no_pull_request single_file_same [of "ascii ''threads.json''" no_pull_request]
  by blast

text \<open>
  Claim C10. The default applies to absent keys only. When one of the keys
  \<^verbatim>\<open>data\<close>, \<^verbatim>\<open>repository\<close>, \<^verbatim>\<open>pullRequest\<close>, \<^verbatim>\<open>reviewThreads\<close> is present and bound
  to a value that is not a mapping (\<^verbatim>\<open>null\<close>, for example), the next \<^verbatim>\<open>get\<close> raises
  \<^verbatim>\<open>AttributeError\<close>: the run ends with that exception before anything is printed.
\<close>

theorem non_mapping_value_is_fatal:
  assumes doc_file: "fs path = Some (Inr doc)"
    and non_mapping: "non_mapping_along intermediate_keys doc"
  shows "main (prog # path # rest) fs =
           \<lparr>stdout = [], stderr = [],
            fs_calls = [Exists path, Open path],
            outcome = Uncaught AttributeError\<rparr> \<and>
         exit_status (outcome (main (prog # path # rest) fs)) = 1"
proof -
  have "threads_of doc = Inl AttributeError"
    using non_mapping unfolding threads_of_chain by (rule get_chain_non_mapping)
  then have "print_table doc = ([], Uncaught AttributeError)"
    by (simp add: print_table_unfold)
  then show ?thesis
    using doc_file by (simp add: main_document [where doc = doc])
qed

lemma non_mapping_data_null: "non_mapping_along intermediate_keys data_null"
  by (simp add: intermediate_keys_def data_null_def ascii_def)

theorem non_mapping_value_is_fatal_witness:
  "non_mapping_along intermediate_keys data_null \<and>
   main [ascii ''pr.py'', ascii ''threads.json'']
     (single_file (ascii ''threads.json'') data_null) =
     \<lparr>stdout = [], stderr = [],
      fs_calls = [Exists (ascii ''threads.json''), Open (ascii ''threads.json'')],
      outcome = Uncaught AttributeError\<rparr>"
  using non_mapping_value_is_fatal [where doc = data_null
    and fs = "single_file (ascii ''threads.json'') data_null"
    and path = "ascii ''threads.json''" and prog = "ascii ''pr.py''" and rest = "[]"]
    non_mapping_data_null single_file_same [of "ascii ''threads.json''" data_null]
  by blast

subsection \<open>Missing fields\<close>

lemma first_body_missing:
  assumes "first_comment_body_missing kvs"
  shows "first_body (PDict kvs) = Inl KeyError \<or> first_body (PDict kvs) = Inl IndexError"
proof (cases "map_of kvs (ascii ''comments'')")
  case None
  then show ?thesis by (simp add: first_body_def)
next
  case (Some c)
  with assms obtain cs where c: "c = PDict cs"
    by (cases c) (simp_all add: first_comment_body_missing_def)
  show ?thesis
  proof (cases "map_of cs (ascii ''nodes'')")
    case None
    with Some c show ?thesis by (simp add: first_body_def)
  next
    case ns: (Some ns)
    from assms Some c ns obtain xs where l: "ns = PList xs"
      by (cases ns) (simp_all add: first_comment_body_missing_def)
    show ?thesis
    proof (cases xs)
      case Nil
      with Some c ns l show ?thesis by (simp add: first_body_def)
    next
      case (Cons x xs')
      from assms Some c ns l Cons obtain n where x: "x = PDict n"
        by (cases x) (simp_all add: first_comment_body_missing_def)
      from assms Some c ns l Cons x have "map_of n (ascii ''body'') = None"
        by (simp add: first_comment_body_missing_def)
      with Some c ns l Cons x show ?thesis by (simp add: first_body_def)
    qed
  qed
qed

lemma row_of_missing:
  assumes "missing_required kvs"
  shows "row_of (PDict kvs) = Inl KeyError \<or> row_of (PDict kvs) = Inl IndexError"
proof (cases "map_of kvs (ascii ''id'')")
  case None
  then show ?thesis by (simp add: row_of_def)
next
  case i: (Some tid)
  show ?thesis
  proof (cases "map_of kvs (ascii ''path'')")
    case None
    with i show ?thesis by (simp add: row_of_def)
  next
    case p: (Some path)
    show ?thesis
    proof (cases "map_of kvs (ascii ''line'')")
      case None
      with i p show ?thesis by (simp add: row_of_def)
    next
      case l: (Some line)
      from assms i p l have "first_comment_body_missing kvs"
        by (simp add: missing_required_def)
      then have "first_body (PDict kvs) = Inl KeyError \<or>
          first_body (PDict kvs) = Inl IndexError"
        by (rule first_body_missing)
      with i p l show ?thesis by (auto simp add: row_of_def)
    qed
  qed
qed

text \<open>
  Claim C6. Let a thread be reached by the loop (the threads before it raised nothing
  and \<open>out\<close> is what has been printed) and not skipped: both flags are present and
  false, which is what \<open>skip_test\<close> returning false means (lemma \<open>skip_test_false\<close>). If
  \<^verbatim>\<open>id\<close>, \<^verbatim>\<open>path\<close>, \<^verbatim>\<open>line\<close> or the body of the first comment is missing, the empty
  sequence of comments included, building the row raises \<^verbatim>\<open>KeyError\<close> or
  \<^verbatim>\<open>IndexError\<close>, and the run ends with that exception: standard output holds what was
  printed before the thread, no row or part of a row for it, and nothing after it.
\<close>

theorem missing_field_is_fatal:
  assumes doc_file: "fs path = Some (Inr doc)"
    and threads: "threads_of doc = Inr (PList (pre @ PDict kvs # post))"
    and reached: "for_threads pre [header, separator] = (out, None)"
    and unskipped: "skip_test (PDict kvs) = Inr False"
    and missing: "missing_required kvs"
  shows "\<exists>e. (e = KeyError \<or> e = IndexError) \<and> row_of (PDict kvs) = Inl e \<and>
             stdout (main (prog # path # rest) fs) = out \<and>
             outcome (main (prog # path # rest) fs) = Uncaught e \<and>
             exit_status (outcome (main (prog # path # rest) fs)) = 1"
proof -
  from missing obtain e where e: "e = KeyError \<or> e = IndexError"
    and r: "row_of (PDict kvs) = Inl e"
    using row_of_missing by blast
  have "for_threads (pre @ PDict kvs # post) [header, separator] = (out, Some e)"
    using reached unskipped r by (rule for_threads_raise_row)
  then have "print_table doc = (out, Uncaught e)"
    by (simp add: print_table_list [OF threads])
  then show ?thesis
    using e r doc_file by (simp add: main_document [where doc = doc])
qed

lemma thread_no_comment_facts:
  "thread_no_comment =
     PDict [(ascii ''id'', PStr (ascii ''T3'')),
            (ascii ''path'', PStr (ascii ''c.py'')),
            (ascii ''line'', PInt 7),
            (ascii ''isOutdated'', PBool False),
            (ascii ''isResolved'', PBool False),
            (ascii ''comments'', PDict [(ascii ''nodes'', PList [])])] \<and>
   skip_test thread_no_comment = Inr False \<and>
   missing_required
     [(ascii ''id'', PStr (ascii ''T3'')),
      (ascii ''path'', PStr (ascii ''c.py'')),
      (ascii ''line'', PInt 7),
      (ascii ''isOutdated'', PBool False),
      (ascii ''isResolved'', PBool False),
      (ascii ''comments'', PDict [(ascii ''nodes'', PList [])])]"
  by (simp add: thread_no_comment_def skip_test_def missing_required_def
      first_comment_body_missing_def ascii_def)

theorem missing_field_is_fatal_witness:
  "stdout (main [ascii ''pr.py'', ascii ''threads.json'']
             (single_file (ascii ''threads.json'') scenario_no_comment)) =
     [header, separator,
      ascii ''T1                   a.py                           10    OPEN       line one line two''] \<and>
   (outcome (main [ascii ''pr.py'', ascii ''threads.json'']
             (single_file (ascii ''threads.json'') scenario_no_comment)) = Uncaught KeyError \<or>
    outcome (main [ascii ''pr.py'', ascii ''threads.json'']
             (single_file (ascii ''threads.json'') scenario_no_comment)) = Uncaught IndexError)"
proof -
  let ?kvs = "[(ascii ''id'', PStr (ascii ''T3'')),
      (ascii ''path'', PStr (ascii ''c.py'')),
      (ascii ''line'', PInt 7),
      (ascii ''isOutdated'', PBool False),
      (ascii ''isResolved'', PBool False),
      (ascii ''comments'', PDict [(ascii ''nodes'', PList [])])]"
  have t3: "thread_no_comment = PDict ?kvs"
    and h4: "skip_test thread_no_comment = Inr False"
    and h5: "missing_required ?kvs"
    using thread_no_comment_facts by simp_all
  have h1: "single_file (ascii ''threads.json'') scenario_no_comment (ascii ''threads.json'') =
      Some (Inr scenario_no_comment)"
    by (rule single_file_same)
  have h2: "threads_of scenario_no_comment = Inr (PList ([thread_T1] @ PDict ?kvs # [thread_T2]))"
    by (simp add: scenario_no_comment_def threads_of_envelope t3 [symmetric])
  show ?thesis
    using missing_field_is_fatal [where kvs = ?kvs
      and fs = "single_file (ascii ''threads.json'') scenario_no_comment"
      and path = "ascii ''threads.json''" and doc = scenario_no_comment
      and pre = "[thread_T1]" and post = "[thread_T2]"
      and prog = "ascii ''pr.py''" and rest = "[]", OF h1 h2 for_threads_T1]
      h4 h5 t3
    by auto
qed

subsection \<open>Missing flags\<close>

text \<open>
  Claim C9, as the script has it. For a thread reached by the loop, \<^verbatim>\<open>isOutdated\<close> is
  required whatever the thread is, and \<^verbatim>\<open>isResolved\<close> is required when \<^verbatim>\<open>isOutdated\<close>
  is false: if \<^verbatim>\<open>isOutdated\<close> is absent, even with \<^verbatim>\<open>isResolved\<close> present and true, or
  if \<^verbatim>\<open>isOutdated\<close> is false and \<^verbatim>\<open>isResolved\<close> is absent, line 24 raises \<^verbatim>\<open>KeyError\<close>
  and the run ends there, before the thread is skipped or printed. When \<^verbatim>\<open>isOutdated\<close>
  is true the operator \<^verbatim>\<open>or\<close> does not read \<^verbatim>\<open>isResolved\<close>: the thread is skipped
  whether or not that key is present.
\<close>

theorem flags_required:
  assumes doc_file: "fs path = Some (Inr doc)"
    and threads: "threads_of doc = Inr (PList (pre @ PDict kvs # post))"
    and reached: "for_threads pre [header, separator] = (out, None)"
  shows "(flag_missing kvs \<longrightarrow>
            skip_test (PDict kvs) = Inl KeyError \<and>
            stdout (main (prog # path # rest) fs) = out \<and>
            outcome (main (prog # path # rest) fs) = Uncaught KeyError) \<and>
         (flag_true (ascii ''isOutdated'') kvs \<longrightarrow>
            skip_test (PDict kvs) = Inr True \<and>
            for_threads (pre @ PDict kvs # post) [header, separator] =
              for_threads post out)"
proof -
  have a: "skip_test (PDict kvs) = Inl KeyError \<and>
      stdout (main (prog # path # rest) fs) = out \<and>
      outcome (main (prog # path # rest) fs) = Uncaught KeyError" if m: "flag_missing kvs"
  proof -
    have s: "skip_test (PDict kvs) = Inl KeyError"
      using m by (rule skip_test_flag_missing)
    with reached
    have "for_threads (pre @ PDict kvs # post) [header, separator] = (out, Some KeyError)"
      by (rule for_threads_raise_skip)
    then have "print_table doc = (out, Uncaught KeyError)"
      by (simp add: print_table_list [OF threads])
    then show ?thesis
      using s doc_file by (simp add: main_document [where doc = doc])
  qed
  have b: "skip_test (PDict kvs) = Inr True \<and>
      for_threads (pre @ PDict kvs # post) [header, separator] = for_threads post out"
    if o: "flag_true (ascii ''isOutdated'') kvs"
  proof -
    have s: "skip_test (PDict kvs) = Inr True"
      using o by (auto simp add: skip_test_def flag_true_def split: option.splits)
    then show ?thesis
      using reached by (simp add: for_threads_append)
  qed
  from a b show ?thesis by blast
qed

lemma resolved_only_facts:
  "resolved_only = PDict [(ascii ''isResolved'', PBool True)] \<and>
   flag_missing [(ascii ''isResolved'', PBool True)]"
  by (simp add: resolved_only_def flag_missing_def ascii_def)

lemma outdated_only_facts:
  "outdated_only = PDict [(ascii ''isOutdated'', PBool True)] \<and>
   flag_true (ascii ''isOutdated'') [(ascii ''isOutdated'', PBool True)]"
  by (simp add: outdated_only_def flag_true_def)

theorem flags_required_witness:
  "stdout (main [ascii ''pr.py'', ascii ''threads.json'']
             (single_file (ascii ''threads.json'') (envelope (PList [resolved_only])))) =
     [header, separator] \<and>
   outcome (main [ascii ''pr.py'', ascii ''threads.json'']
             (single_file (ascii ''threads.json'') (envelope (PList [resolved_only])))) =
     Uncaught KeyError \<and>
   skip_test outdated_only = Inr True"
proof -
  let ?r = "[(ascii ''isResolved'', PBool True)]"
  let ?o = "[(ascii ''isOutdated'', PBool True)]"
  let ?doc = "envelope (PList [resolved_only])"
  let ?doc' = "envelope (PList [outdated_only])"
  have r: "resolved_only = PDict ?r" and m: "flag_missing ?r"
    using resolved_only_facts by simp_all
  have o: "outdated_only = PDict ?o" and f: "flag_true (ascii ''isOutdated'') ?o"
    using outdated_only_facts by simp_all
  have h1: "single_file (ascii ''threads.json'') ?doc (ascii ''threads.json'') = Some (Inr ?doc)"
    by (rule single_file_same)
  have h2: "threads_of ?doc = Inr (PList ([] @ PDict ?r # []))"
    by (simp add: threads_of_envelope r [symmetric])
  have h3: "for_threads [] [header, separator] = ([header, separator], None)"
    by simp
  have k1: "single_file (ascii ''threads.json'') ?doc' (ascii ''threads.json'') = Some (Inr ?doc')"
    by (rule single_file_same)
  have k2: "threads_of ?doc' = Inr (PList ([] @ PDict ?o # []))"
    by (simp add: threads_of_envelope o [symmetric])
  have "skip_test (PDict ?o) = Inr True"
    using flags_required [where kvs = ?o
      and fs = "single_file (ascii ''threads.json'') ?doc'"
      and path = "ascii ''threads.json''" and doc = ?doc'
      and pre = "[]" and post = "[]"
      and prog = "ascii ''pr.py''" and rest = "[]", OF k1 k2 h3] f
    by blast
  then have "skip_test outdated_only = Inr True"
    by (simp only: o)
  then show ?thesis
    using flags_required [where kvs = ?r
      and fs = "single_file (ascii ''threads.json'') ?doc"
      and path = "ascii ''threads.json''" and doc = ?doc
      and pre = "[]" and post = "[]"
      and prog = "ascii ''pr.py''" and rest = "[]", OF h1 h2 h3] m
    by blast
qed

text \<open>
  The claim as stated fails on a thread that has \<^verbatim>\<open>isOutdated\<close> true and no key
  \<^verbatim>\<open>isResolved\<close>: the key is absent, and the run ends normally with an empty table.
\<close>

lemma print_table_outdated_only:
  "print_table (envelope (PList [outdated_only])) = ([header, separator], Exit 0)"
  by (simp add: outdated_only_def print_table_unfold threads_of_envelope skip_test_def)

theorem isResolved_not_required_counterexample:
  "subscript outdated_only (ascii ''isOutdated'') = Inr (PBool True) \<and>
   subscript outdated_only (ascii ''isResolved'') = Inl KeyError \<and>
   main [ascii ''pr.py'', ascii ''threads.json'']
     (single_file (ascii ''threads.json'') (envelope (PList [outdated_only]))) =
     \<lparr>stdout = [header, separator], stderr = [],
      fs_calls = [Exists (ascii ''threads.json''), Open (ascii ''threads.json'')],
      outcome = Exit 0\<rparr>"
proof -
  have "subscript outdated_only (ascii ''isOutdated'') = Inr (PBool True)"
    by (simp add: outdated_only_def)
  moreover have "subscript outdated_only (ascii ''isResolved'') = Inl KeyError"
    by (simp add: outdated_only_def ascii_def)
  moreover have "main [ascii ''pr.py'', ascii ''threads.json'']
     (single_file (ascii ''threads.json'') (envelope (PList [outdated_only]))) =
     \<lparr>stdout = [header, separator], stderr = [],
      fs_calls = [Exists (ascii ''threads.json''), Open (ascii ''threads.json'')],
      outcome = Exit 0\<rparr>"
    using single_file_same [of "ascii ''threads.json''" "envelope (PList [outdated_only])"]
    by (simp add: main_document [where doc = "envelope (PList [outdated_only])"]
        print_table_outdated_only)
  ultimately show ?thesis by simp
qed

subsection \<open>The rows\<close>
















text \<open>
  A row that the stream cannot encode ends the run as well: the thread is not skipped,
  its row is built, and \<^verbatim>\<open>print\<close> raises.
\<close>

lemma row_of_surrogate: "\<exists>s. row_of thread_surrogate = Inr (0xD800 # s)"
  by (simp add: row_of_def first_body_def format_row_def ljust_def thread_surrogate_def
      ascii_def)

lemma surrogate_row_not_printed:
  "print_table (envelope (PList [thread_surrogate, thread_T1])) =
     ([header, separator], Uncaught UnicodeEncodeError)"
proof -
  obtain s where r: "row_of thread_surrogate = Inr (0xD800 # s)"
    using row_of_surrogate by blast
  have k: "skip_test thread_surrogate = Inr False"
    by (simp add: skip_test_def thread_surrogate_def ascii_def)
  show ?thesis
    by (simp add: print_table_unfold threads_of_envelope k r print_line_surrogate)
qed

subsection \<open>The comment field\<close>







end
